theory Spec2Isabelle
  imports Main "HOL-Library.AList"
begin

section \<open>Data model\<close>

text \<open>
  The program is \<^verbatim>\<open>inverted_index.py\<close>. Python values are embedded as follows.

  \<^item> \<^verbatim>\<open>str\<close> is \<^typ>\<open>string\<close>. The characters are read as ASCII code points; the
    character classes below (\<^verbatim>\<open>\w\<close>, whitespace, upper case) are the ASCII parts of
    Python's classes.
  \<^item> \<^verbatim>\<open>int\<close> is \<^typ>\<open>int\<close> (unbounded).
  \<^item> A \<^verbatim>\<open>dict\<close> is an association list in insertion order; assignment to a key is
    \<^const>\<open>AList.update\<close> (an existing key keeps its place and gets the new value, a
    new key goes to the end), lookup is \<^const>\<open>map_of\<close>. A dictionary has no two
    items with the same key, which is \<open>distinct (map fst d)\<close>.
  \<^item> A \<^verbatim>\<open>set\<close> of the program is a duplicate-free list. Python leaves the iteration
    order of a set unspecified; the model lists the elements in the order in which
    they were added. Only membership is used in what follows.
  \<^item> An exception is a value of type \<open>error\<close>, returned on the left of a sum.
\<close>

datatype error = ValueError | JSONDecodeError

type_synonym 'a pyset = "'a list"

definition pyset_add :: "'a \<Rightarrow> 'a pyset \<Rightarrow> 'a pyset" where
  "pyset_add x s = (if x \<in> set s then s else s @ [x])"

definition pyset_update :: "'a pyset \<Rightarrow> 'a list \<Rightarrow> 'a pyset" where
  "pyset_update s xs = fold pyset_add xs s"

definition list_of_pyset :: "'a pyset \<Rightarrow> 'a list" where
  "list_of_pyset s = s"

type_synonym words_ids = "(string \<times> int list) list"

text \<open>
  The class \<^verbatim>\<open>InvertedIndex\<close> has one attribute, \<^verbatim>\<open>inverted_index\<close>, and its
  constructor stores the argument without looking at it. The attribute is annotated
  \<^verbatim>\<open>Dict[str, List[int]]\<close>, which is \<^typ>\<open>words_ids\<close>; \<^verbatim>\<open>load\<close> stores whatever
  the JSON decoder returned, so the type of the attribute is a parameter.
\<close>

datatype 'a InvertedIndex = InvertedIndex (inverted_index: 'a)

section \<open>Tokenizer: \<^verbatim>\<open>re.split(r"\W+", content)\<close>\<close>

text \<open>
  \<^verbatim>\<open>\w\<close> on ASCII: digits, letters and the underscore.
\<close>

definition is_word :: "char \<Rightarrow> bool" where
  "is_word c \<longleftrightarrow>
     (let n = (of_char c :: nat)
      in (48 \<le> n \<and> n \<le> 57) \<or> (65 \<le> n \<and> n \<le> 90) \<or> n = 95 \<or> (97 \<le> n \<and> n \<le> 122))"

text \<open>
  \<^verbatim>\<open>re.split\<close> cuts the string at every match of the pattern, leftmost first, and
  returns the pieces between the matches, the empty ones too. A match of \<^verbatim>\<open>\W+\<close> is
  a maximal run of non-word characters and is never empty. So the first piece is the
  longest prefix of word characters; if the string ends there it is the last piece,
  otherwise the run of separators that follows is dropped and the rest is split in
  the same way.
\<close>

function re_split_W :: "string \<Rightarrow> string list" where
  "re_split_W s =
     (case dropWhile is_word s of
        [] \<Rightarrow> [takeWhile is_word s]
      | _ # r \<Rightarrow> takeWhile is_word s # re_split_W (dropWhile (\<lambda>c. \<not> is_word c) r))"
  by pat_completeness auto
termination
proof (relation "measure length")
  show "wf (measure length)" by simp
next
  fix s :: string and x r
  assume "dropWhile is_word s = x # r"
  then have "length r < length (dropWhile is_word s)" by simp
  moreover have "length (dropWhile is_word s) \<le> length s"
    by (rule length_dropWhile_le)
  moreover have "length (dropWhile (\<lambda>c. \<not> is_word c) r) \<le> length r"
    by (rule length_dropWhile_le)
  ultimately show "(dropWhile (\<lambda>c. \<not> is_word c) r, s) \<in> measure length" by simp
qed

declare re_split_W.simps [simp del]

section \<open>Index builder\<close>

text \<open>
  \<^verbatim>\<open>inverted_index[filtered_word].add(doc_id)\<close> on a \<^verbatim>\<open>defaultdict(set)\<close>: a missing
  key is first bound to the empty set.
\<close>

definition add_posting :: "string \<Rightarrow> int \<Rightarrow> (string \<times> int pyset) list \<Rightarrow> (string \<times> int pyset) list" where
  "add_posting word doc_id idx =
     AList.update word
       (pyset_add doc_id (case map_of idx word of None \<Rightarrow> [] | Some s \<Rightarrow> s)) idx"

text \<open>The body of the loop over \<^verbatim>\<open>documents.items()\<close>.\<close>

definition index_document ::
  "string set \<Rightarrow> int \<times> string \<Rightarrow> (string \<times> int pyset) list \<Rightarrow> (string \<times> int pyset) list" where
  "index_document stopwords item idx =
     (let doc_id = fst item; content = snd item;
          words = re_split_W content;
          filtered_words = filter (\<lambda>word. word \<notin> stopwords) words
      in fold (\<lambda>filtered_word. add_posting filtered_word doc_id) filtered_words idx)"

definition build_inverted_index :: "(int \<times> string) list \<Rightarrow> string set \<Rightarrow> words_ids InvertedIndex" where
  "build_inverted_index documents stopwords =
     (let inverted_index = fold (index_document stopwords) documents [];
          mapped_inverted_index = map (\<lambda>(word, doc_ids). (word, list_of_pyset doc_ids)) inverted_index
      in InvertedIndex mapped_inverted_index)"

section \<open>Query\<close>

text \<open>
  The body of the loop over \<^verbatim>\<open>words\<close>: \<^verbatim>\<open>if not entry: continue\<close> skips a missing key
  (\<^verbatim>\<open>get\<close> returns \<^verbatim>\<open>None\<close>) and an empty list.
\<close>

definition query_step :: "words_ids \<Rightarrow> string \<Rightarrow> int pyset \<Rightarrow> int pyset" where
  "query_step idx word result =
     (case map_of idx word of
        None \<Rightarrow> result
      | Some entry \<Rightarrow> if entry = [] then result else pyset_update result entry)"

definition query :: "words_ids InvertedIndex \<Rightarrow> string list \<Rightarrow> int list" where
  "query self words = list_of_pyset (fold (query_step (inverted_index self)) words [])"

section \<open>Corpus loader\<close>






definition is_digit :: "char \<Rightarrow> bool" where
  "is_digit c \<longleftrightarrow> (let n = (of_char c :: nat) in 48 \<le> n \<and> n \<le> 57)"

definition digit_val :: "char \<Rightarrow> nat" where
  "digit_val c = of_char c - 48"








section \<open>Persisted index: \<^verbatim>\<open>json.dump\<close>\<close>

text \<open>
  \<^verbatim>\<open>dump\<close> calls \<^verbatim>\<open>json.dump\<close> with its defaults. A string is written by
  \<^verbatim>\<open>encode_basestring_ascii\<close>: between double quotes, with the quote, the backslash and
  every character outside the printable ASCII range (space to tilde) escaped, by the
  short escapes of \<^verbatim>\<open>ESCAPE_DCT\<close> or else as \<^verbatim>\<open>\u00XX\<close> with lower-case hex digits.
\<close>

definition hex_digit :: "nat \<Rightarrow> char" where
  "hex_digit n = (if n < 10 then char_of (48 + n) else char_of (87 + n))"

definition escape_char :: "char \<Rightarrow> string" where
  "escape_char c =
     (let n = (of_char c :: nat) in
      if c = CHR 0x22 then [CHR 0x5C, CHR 0x22]
      else if c = CHR 0x5C then [CHR 0x5C, CHR 0x5C]
      else if c = CHR 0x08 then [CHR 0x5C, CHR ''b'']
      else if c = CHR 0x0C then [CHR 0x5C, CHR ''f'']
      else if c = CHR 0x0A then [CHR 0x5C, CHR ''n'']
      else if c = CHR 0x0D then [CHR 0x5C, CHR ''r'']
      else if c = CHR 0x09 then [CHR 0x5C, CHR ''t'']
      else if n < 32 \<or> 126 < n
        then [CHR 0x5C, CHR ''u'', CHR ''0'', CHR ''0'', hex_digit (n div 16), hex_digit (n mod 16)]
      else [c])"

definition encode_basestring_ascii :: "string \<Rightarrow> string" where
  "encode_basestring_ascii s = CHR 0x22 # concat (map escape_char s) @ [CHR 0x22]"

text \<open>
  An integer is written by \<^verbatim>\<open>int.__repr__\<close>: decimal digits without leading zeros, after
  a minus sign when negative.
\<close>

fun digits_of :: "nat \<Rightarrow> string" where
  "digits_of n =
     (if n < 10 then [char_of (48 + n)] else digits_of (n div 10) @ [char_of (48 + n mod 10)])"

declare digits_of.simps [simp del]

definition int_repr :: "int \<Rightarrow> string" where
  "int_repr i = (if i < 0 then CHR ''-'' # digits_of (nat (- i)) else digits_of (nat i))"

text \<open>
  A list is written between brackets and a dictionary between braces, the items
  separated by a comma and a space, a key and its value by a colon and a space.
  \<open>dump\<close> returns the text that is written to the file.
\<close>

fun join :: "string \<Rightarrow> string list \<Rightarrow> string" where
  "join sep [] = []"
| "join sep [x] = x"
| "join sep (x # y # ys) = x @ sep @ join sep (y # ys)"

definition encode_list :: "int list \<Rightarrow> string" where
  "encode_list lst = ''['' @ join '', '' (map int_repr lst) @ '']''"

definition encode_dict :: "words_ids \<Rightarrow> string" where
  "encode_dict dct =
     ''{'' @ join '', '' (map (\<lambda>(key, value). encode_basestring_ascii key @ '': '' @ encode_list value) dct)
       @ ''}''"

definition dump :: "words_ids InvertedIndex \<Rightarrow> string" where
  "dump self = encode_dict (inverted_index self)"

section \<open>Persisted index: \<^verbatim>\<open>json.load\<close>\<close>

text \<open>
  What the decoder returns: \<^verbatim>\<open>None\<close>, a \<^verbatim>\<open>bool\<close>, an \<^verbatim>\<open>int\<close>, a \<^verbatim>\<open>float\<close>, a \<^verbatim>\<open>str\<close>, a
  \<^verbatim>\<open>list\<close> or a \<^verbatim>\<open>dict\<close> with string keys. A decoded string can hold any Unicode code
  point (through \<^verbatim>\<open>\uXXXX\<close> escapes), so it is a list of code points. A float is kept as
  the text of its literal, of which the Python value is a function.
\<close>

datatype json =
    JNull | JBool bool | JInt int | JFloat string | JStr "nat list"
  | JArr "json list" | JObj "(nat list \<times> json) list"

text \<open>The white space the decoder skips: space, tab, line feed, carriage return.\<close>

definition is_ws :: "char \<Rightarrow> bool" where
  "is_ws c \<longleftrightarrow> c = CHR '' '' \<or> c = CHR 0x09 \<or> c = CHR 0x0A \<or> c = CHR 0x0D"

definition skip_ws :: "string \<Rightarrow> string" where
  "skip_ws s = dropWhile is_ws s"

text \<open>
  \<^verbatim>\<open>scanstring\<close> (strict), called after the opening quote: it returns the decoded string
  and the text after the closing quote. A backslash is followed by one of the
  characters of \<^verbatim>\<open>BACKSLASH\<close> or by \<open>u\<close> and four hex digits; a high surrogate followed by
  the escape of a low surrogate is joined with it into one code point. A control
  character, an unknown escape and the end of the text raise.
\<close>

definition hex_val :: "char \<Rightarrow> nat option" where
  "hex_val c =
     (let n = (of_char c :: nat) in
      if 48 \<le> n \<and> n \<le> 57 then Some (n - 48)
      else if 97 \<le> n \<and> n \<le> 102 then Some (n - 87)
      else if 65 \<le> n \<and> n \<le> 70 then Some (n - 55)
      else None)"

definition hex4 :: "char \<Rightarrow> char \<Rightarrow> char \<Rightarrow> char \<Rightarrow> nat option" where
  "hex4 a b c d =
     (case (hex_val a, hex_val b, hex_val c, hex_val d) of
        (Some x, Some y, Some z, Some w) \<Rightarrow> Some (((x * 16 + y) * 16 + z) * 16 + w)
      | _ \<Rightarrow> None)"

definition backslash :: "char \<Rightarrow> nat option" where
  "backslash e =
     (if e = CHR 0x22 then Some 0x22
      else if e = CHR 0x5C then Some 0x5C
      else if e = CHR ''/'' then Some 0x2F
      else if e = CHR ''b'' then Some 0x08
      else if e = CHR ''f'' then Some 0x0C
      else if e = CHR ''n'' then Some 0x0A
      else if e = CHR ''r'' then Some 0x0D
      else if e = CHR ''t'' then Some 0x09
      else None)"

definition append_char :: "nat \<Rightarrow> (nat list \<times> string) option \<Rightarrow> (nat list \<times> string) option" where
  "append_char ch r = map_option (\<lambda>(chunks, rest). (ch # chunks, rest)) r"

fun scanstring :: "string \<Rightarrow> (nat list \<times> string) option" where
  "scanstring [] = None"
| "scanstring (c # cs) =
     (if c = CHR 0x22 then Some ([], cs)
      else if c = CHR 0x5C then
        (case cs of
           [] \<Rightarrow> None
         | esc # es \<Rightarrow>
             if esc \<noteq> CHR ''u'' then
               (case backslash esc of
                  None \<Rightarrow> None
                | Some ch \<Rightarrow> append_char ch (scanstring es))
             else
               (case es of
                  a # b # c' # d # r \<Rightarrow>
                    (case hex4 a b c' d of
                       None \<Rightarrow> None
                     | Some uni \<Rightarrow>
                         (case r of
                            x # y # a2 # b2 # c2 # d2 # r2 \<Rightarrow>
                              if 0xD800 \<le> uni \<and> uni \<le> 0xDBFF \<and> x = CHR 0x5C \<and> y = CHR ''u'' then
                                (case hex4 a2 b2 c2 d2 of
                                   None \<Rightarrow> None
                                 | Some uni2 \<Rightarrow>
                                     if 0xDC00 \<le> uni2 \<and> uni2 \<le> 0xDFFF
                                     then append_char
                                            (0x10000 + (uni - 0xD800) * 0x400 + (uni2 - 0xDC00))
                                            (scanstring r2)
                                     else append_char uni (scanstring r))
                              else append_char uni (scanstring r)
                          | _ \<Rightarrow>
                              if 0xD800 \<le> uni \<and> uni \<le> 0xDBFF \<and> take 2 r = [CHR 0x5C, CHR ''u'']
                              then None
                              else append_char uni (scanstring r)))
                | _ \<Rightarrow> None))
      else if (of_char c :: nat) < 32 then None
      else append_char (of_char c) (scanstring cs))"

text \<open>
  \<^verbatim>\<open>NUMBER_RE\<close>: an optional minus sign and \<open>0\<close> or a digit from 1 to 9 followed by digits;
  then, optionally, a point and digits; then, optionally, an exponent. The number is
  an \<^verbatim>\<open>int\<close> unless it has a fraction or an exponent.
\<close>

definition nat_of_digits :: "string \<Rightarrow> nat" where
  "nat_of_digits ds = foldl (\<lambda>acc d. 10 * acc + digit_val d) 0 ds"

definition match_frac :: "string \<Rightarrow> string \<times> string" where
  "match_frac s =
     (case s of
        [] \<Rightarrow> ([], s)
      | p # f \<Rightarrow>
          if p = CHR ''.'' \<and> takeWhile is_digit f \<noteq> []
          then (p # takeWhile is_digit f, dropWhile is_digit f)
          else ([], s))"

definition match_exp :: "string \<Rightarrow> string \<times> string" where
  "match_exp s =
     (case s of
        [] \<Rightarrow> ([], s)
      | e # x \<Rightarrow>
          if e = CHR ''e'' \<or> e = CHR ''E'' then
            (let sg = (case x of [] \<Rightarrow> [] | g # _ \<Rightarrow> if g = CHR ''+'' \<or> g = CHR ''-'' then [g] else []);
                 y = drop (length sg) x
             in if takeWhile is_digit y \<noteq> []
                then (e # sg @ takeWhile is_digit y, dropWhile is_digit y)
                else ([], s))
          else ([], s))"

definition match_integer :: "string \<Rightarrow> (string \<times> string) option" where
  "match_integer s =
     (let sg = (case s of [] \<Rightarrow> [] | g # _ \<Rightarrow> if g = CHR ''-'' then [g] else []);
          t = drop (length sg) s
      in case t of
           [] \<Rightarrow> None
         | d # r \<Rightarrow>
             if d = CHR ''0'' then Some (sg @ [d], r)
             else if is_digit d then Some (sg @ d # takeWhile is_digit r, dropWhile is_digit r)
             else None)"

definition py_int_literal :: "string \<Rightarrow> int" where
  "py_int_literal t =
     (case t of
        [] \<Rightarrow> 0
      | g # ds \<Rightarrow> if g = CHR ''-'' then - int (nat_of_digits ds) else int (nat_of_digits t))"

definition match_number :: "string \<Rightarrow> (json \<times> string) option" where
  "match_number s =
     (case match_integer s of
        None \<Rightarrow> None
      | Some (integer, r) \<Rightarrow>
          (let (frac, r1) = match_frac r; (ex, r2) = match_exp r1
           in if frac \<noteq> [] \<or> ex \<noteq> []
              then Some (JFloat (integer @ frac @ ex), r2)
              else Some (JInt (py_int_literal integer), r2)))"

text \<open>\<^verbatim>\<open>dict(pairs)\<close>: a key that comes again keeps its place and takes the later value.\<close>

definition py_dict :: "('k \<times> 'v) list \<Rightarrow> ('k \<times> 'v) list" where
  "py_dict pairs = fold (\<lambda>(k, v). AList.update k v) pairs []"

text \<open>
  \<^verbatim>\<open>scan_once\<close>, with the loops of \<^verbatim>\<open>JSONArray\<close> (entered at the first value) and of
  \<^verbatim>\<open>JSONObject\<close> (entered after the opening quote of a key). The three call each other,
  so they take fuel: the first argument bounds the number of nested calls, and
  \<open>None\<close> is a \<^verbatim>\<open>JSONDecodeError\<close> or the end of the fuel.
\<close>

fun scan_once :: "nat \<Rightarrow> string \<Rightarrow> (json \<times> string) option"
  and JSONArray_loop :: "nat \<Rightarrow> string \<Rightarrow> (json list \<times> string) option"
  and JSONObject_loop :: "nat \<Rightarrow> string \<Rightarrow> ((nat list \<times> json) list \<times> string) option"
where
  "scan_once 0 s = None"
| "scan_once (Suc n) s =
     (case s of
        [] \<Rightarrow> None
      | nextchar # cs \<Rightarrow>
          if nextchar = CHR 0x22 then
            map_option (\<lambda>(str, r). (JStr str, r)) (scanstring cs)
          else if nextchar = CHR ''{'' then
            (case skip_ws cs of
               [] \<Rightarrow> None
             | c # r \<Rightarrow>
                 if c = CHR ''}'' then Some (JObj [], r)
                 else if c = CHR 0x22 then
                   map_option (\<lambda>(pairs, r'). (JObj (py_dict pairs), r')) (JSONObject_loop n r)
                 else None)
          else if nextchar = CHR ''['' then
            (case skip_ws cs of
               [] \<Rightarrow> None
             | c # r \<Rightarrow>
                 if c = CHR '']'' then Some (JArr [], r)
                 else map_option (\<lambda>(values, r'). (JArr values, r')) (JSONArray_loop n (c # r)))
          else if take 4 s = ''null'' then Some (JNull, drop 4 s)
          else if take 4 s = ''true'' then Some (JBool True, drop 4 s)
          else if take 5 s = ''false'' then Some (JBool False, drop 5 s)
          else
            (case match_number s of
               Some res \<Rightarrow> Some res
             | None \<Rightarrow>
                 if take 3 s = ''NaN'' then Some (JFloat ''NaN'', drop 3 s)
                 else if take 8 s = ''Infinity'' then Some (JFloat ''Infinity'', drop 8 s)
                 else if take 9 s = ''-Infinity'' then Some (JFloat ''-Infinity'', drop 9 s)
                 else None))"
| "JSONArray_loop 0 s = None"
| "JSONArray_loop (Suc n) s =
     (case scan_once n s of
        None \<Rightarrow> None
      | Some (value, r) \<Rightarrow>
          (case skip_ws r of
             [] \<Rightarrow> None
           | c # r1 \<Rightarrow>
               if c = CHR '']'' then Some ([value], r1)
               else if c = CHR '','' then
                 map_option (\<lambda>(values, r'). (value # values, r')) (JSONArray_loop n (skip_ws r1))
               else None))"
| "JSONObject_loop 0 s = None"
| "JSONObject_loop (Suc n) s =
     (case scanstring s of
        None \<Rightarrow> None
      | Some (key, r) \<Rightarrow>
          (case skip_ws r of
             [] \<Rightarrow> None
           | c # r1 \<Rightarrow>
               if c \<noteq> CHR '':'' then None
               else
                 (case scan_once n (skip_ws r1) of
                    None \<Rightarrow> None
                  | Some (value, r2) \<Rightarrow>
                      (case skip_ws r2 of
                         [] \<Rightarrow> None
                       | c2 # r3 \<Rightarrow>
                           if c2 = CHR ''}'' then Some ([(key, value)], r3)
                           else if c2 = CHR '','' then
                             (case skip_ws r3 of
                                [] \<Rightarrow> None
                              | q # r4 \<Rightarrow>
                                  if q = CHR 0x22
                                  then map_option (\<lambda>(pairs, r'). ((key, value) # pairs, r'))
                                         (JSONObject_loop n r4)
                                  else None)
                           else None))))"

text \<open>
  \<^verbatim>\<open>json.loads\<close>: white space, one value, white space, and then the end of the text, or
  else \<^verbatim>\<open>JSONDecodeError\<close>. Every nested call of the decoder is made after at least one
  more character has been read, and each loop spends one unit of fuel for a value and
  one for its turn, so twice the length of the text is fuel enough.
\<close>

definition json_loads :: "string \<Rightarrow> error + json" where
  "json_loads s =
     (case scan_once (2 * length s + 2) (skip_ws s) of
        None \<Rightarrow> Inl JSONDecodeError
      | Some (obj, r) \<Rightarrow> if skip_ws r = [] then Inr obj else Inl JSONDecodeError)"

text \<open>
  \<^verbatim>\<open>InvertedIndex.load\<close> is \<^verbatim>\<open>cls(json.load(f))\<close>: the argument is the text of the file.
\<close>

definition load :: "string \<Rightarrow> error + json InvertedIndex" where
  "load f = (case json_loads f of Inl e \<Rightarrow> Inl e | Inr obj \<Rightarrow> Inr (InvertedIndex obj))"

section \<open>Notions used in the statements\<close>

text \<open>
  The id collection of a key of a dictionary of id collections, empty for a key that
  is missing; and the property that no key is bound to an empty collection.
\<close>

definition postings :: "(string \<times> int list) list \<Rightarrow> string \<Rightarrow> int set" where
  "postings idx t = (case map_of idx t of None \<Rightarrow> {} | Some ids \<Rightarrow> set ids)"

definition nonempty_entries :: "(string \<times> int list) list \<Rightarrow> bool" where
  "nonempty_entries idx \<longleftrightarrow> [] \<notin> snd ` set idx"





text \<open>
  A decoded value read at the type \<^verbatim>\<open>Dict[str, List[int]]\<close>: \<open>None\<close> unless it is a
  dictionary whose values are lists of integers.
\<close>

definition str_of_codes :: "nat list \<Rightarrow> string option" where
  "str_of_codes ns = (if list_all (\<lambda>n. n < 256) ns then Some (map char_of ns) else None)"

definition ids_of_json :: "json \<Rightarrow> int list option" where
  "ids_of_json v =
     (case v of
        JArr xs \<Rightarrow> those (map (\<lambda>x. case x of JInt i \<Rightarrow> Some i | _ \<Rightarrow> None) xs)
      | _ \<Rightarrow> None)"

definition words_ids_of_json :: "json \<Rightarrow> words_ids option" where
  "words_ids_of_json v =
     (case v of
        JObj kvs \<Rightarrow>
          those (map (\<lambda>(k, x). case (str_of_codes k, ids_of_json x) of
                                  (Some w, Some ids) \<Rightarrow> Some (w, ids)
                                | _ \<Rightarrow> None) kvs)
      | _ \<Rightarrow> None)"

text \<open>The value the decoder returns for a dictionary of the declared type.\<close>

definition json_of_words_ids :: "words_ids \<Rightarrow> json" where
  "json_of_words_ids m = JObj (map (\<lambda>(k, ids). (map of_char k, JArr (map JInt ids))) m)"

section \<open>Sets as duplicate-free lists\<close>

lemma set_pyset_add: "set (pyset_add x s) = insert x (set s)"
  by (auto simp: pyset_add_def)

lemma distinct_pyset_add: "distinct s \<Longrightarrow> distinct (pyset_add x s)"
  by (simp add: pyset_add_def)

lemma pyset_add_nonempty: "pyset_add x s \<noteq> []"
  by (auto simp: pyset_add_def)

lemma set_pyset_update: "set (pyset_update s xs) = set s \<union> set xs"
  unfolding pyset_update_def
  by (induction xs arbitrary: s) (auto simp: set_pyset_add)

lemma distinct_pyset_update: "distinct s \<Longrightarrow> distinct (pyset_update s xs)"
  unfolding pyset_update_def
  by (induction xs arbitrary: s) (auto simp: distinct_pyset_add)




lemma distinct_add_posting:
  "distinct (map fst idx) \<Longrightarrow> distinct (map fst (add_posting w d idx))"
  by (simp add: add_posting_def distinct_update)

lemma nonempty_update:
  "[] \<notin> snd ` set al \<Longrightarrow> v \<noteq> [] \<Longrightarrow> [] \<notin> snd ` set (AList.update k v al)"
  by (induction al) auto

lemma nonempty_add_posting:
  "nonempty_entries idx \<Longrightarrow> nonempty_entries (add_posting w d idx)"
  unfolding nonempty_entries_def add_posting_def
  by (rule nonempty_update) (simp_all add: pyset_add_nonempty)



lemma distinct_fold_add:
  "distinct (map fst idx) \<Longrightarrow> distinct (map fst (fold (\<lambda>w. add_posting w d) ws idx))"
  by (induction ws arbitrary: idx) (auto simp: distinct_add_posting)

lemma nonempty_fold_add:
  "nonempty_entries idx \<Longrightarrow> nonempty_entries (fold (\<lambda>w. add_posting w d) ws idx)"
  by (induction ws arbitrary: idx) (auto simp: nonempty_add_posting)



lemma distinct_index_document:
  "distinct (map fst idx) \<Longrightarrow> distinct (map fst (index_document S item idx))"
  by (simp add: index_document_def distinct_fold_add)

lemma nonempty_index_document:
  "nonempty_entries idx \<Longrightarrow> nonempty_entries (index_document S item idx)"
  by (simp add: index_document_def nonempty_fold_add)



lemma distinct_fold_documents:
  "distinct (map fst idx) \<Longrightarrow> distinct (map fst (fold (index_document S) D idx))"
  by (induction D arbitrary: idx) (auto simp: distinct_index_document)

lemma nonempty_fold_documents:
  "nonempty_entries idx \<Longrightarrow> nonempty_entries (fold (index_document S) D idx)"
  by (induction D arbitrary: idx) (auto simp: nonempty_index_document)

lemma inverted_index_build:
  "inverted_index (build_inverted_index D S) = fold (index_document S) D []"
  by (simp add: build_inverted_index_def list_of_pyset_def)


lemma re_split_W_all_word:
  assumes "\<forall>c\<in>set w. is_word c"
  shows "re_split_W w = [w]"
proof -
  have d: "dropWhile is_word w = []"
    using assms by (simp add: dropWhile_eq_Nil_conv)
  have t: "takeWhile is_word w = w"
    using assms by (simp add: takeWhile_eq_all_conv)
  show ?thesis
    by (subst re_split_W.simps) (simp add: d t)
qed

lemma re_split_W_sep:
  assumes "\<forall>c\<in>set w. is_word c" and "\<not> is_word x"
  shows "re_split_W (w @ x # r) = w # re_split_W (dropWhile (\<lambda>c. \<not> is_word c) r)"
proof -
  have d: "dropWhile is_word (w @ x # r) = x # r"
    using assms by (simp add: dropWhile_append2)
  have t: "takeWhile is_word (w @ x # r) = w"
    using assms by (simp add: takeWhile_append2)
  show ?thesis
    by (subst re_split_W.simps) (simp add: d t)
qed

lemma re_split_W_cases:
  obtains (word) "\<forall>c\<in>set s. is_word c" "re_split_W s = [s]"
  | (sep) w x r where "s = w @ x # r" "\<forall>c\<in>set w. is_word c" "\<not> is_word x"
      "re_split_W s = w # re_split_W (dropWhile (\<lambda>c. \<not> is_word c) r)"
proof (cases "dropWhile is_word s")
  case Nil
  then have "\<forall>c\<in>set s. is_word c" by (simp add: dropWhile_eq_Nil_conv)
  then show ?thesis using word re_split_W_all_word by blast
next
  case (Cons x r)
  let ?w = "takeWhile is_word s"
  have s: "s = ?w @ x # r" using Cons by (metis takeWhile_dropWhile_id)
  have w: "\<forall>c\<in>set ?w. is_word c" by (auto dest: set_takeWhileD)
  have x: "\<not> is_word x" using Cons by (metis hd_dropWhile list.sel(1) list.distinct(1))
  have "re_split_W (?w @ x # r) = ?w # re_split_W (dropWhile (\<lambda>c. \<not> is_word c) r)"
    using w x by (rule re_split_W_sep)
  with s have "re_split_W s = ?w # re_split_W (dropWhile (\<lambda>c. \<not> is_word c) r)" by simp
  with s w x show ?thesis using sep by blast
qed


lemma tokens_word_chars:
  "t \<in> set (re_split_W s) \<Longrightarrow> c \<in> set t \<Longrightarrow> is_word c"
proof (induction s rule: re_split_W.induct)
  case (1 s)
  show ?case
  proof (cases s rule: re_split_W_cases)
    case word
    with "1.prems" show ?thesis by simp
  next
    case (sep w x r)
    have d: "dropWhile is_word s = x # r"
      using sep by (simp add: dropWhile_append2)
    from "1.prems" sep consider "t = w" | "t \<in> set (re_split_W (dropWhile (\<lambda>c. \<not> is_word c) r))"
      by auto
    then show ?thesis
    proof cases
      case 1
      with sep "1.prems" show ?thesis by simp
    next
      case 2
      then show ?thesis using "1.IH"[OF d] "1.prems" by simp
    qed
  qed
qed









section \<open>The query loop\<close>

lemma query_step_conv:
  "query_step idx w result =
     pyset_update result (case map_of idx w of None \<Rightarrow> [] | Some e \<Rightarrow> e)"
  by (simp add: query_step_def pyset_update_def split: option.splits)

lemma set_query_step: "set (query_step idx w result) = set result \<union> postings idx w"
  by (simp add: query_step_conv set_pyset_update postings_def split: option.splits)

lemma distinct_query_step: "distinct result \<Longrightarrow> distinct (query_step idx w result)"
  by (simp add: query_step_conv distinct_pyset_update)

lemma set_fold_query_step:
  "set (fold (query_step idx) ws acc) = set acc \<union> (\<Union>w\<in>set ws. postings idx w)"
  by (induction ws arbitrary: acc) (simp_all add: set_query_step Un_assoc)

lemma distinct_fold_query_step:
  "distinct acc \<Longrightarrow> distinct (fold (query_step idx) ws acc)"
  by (induction ws arbitrary: acc) (simp_all add: distinct_query_step)

lemma set_query: "set (query self ws) = (\<Union>w\<in>set ws. postings (inverted_index self) w)"
  by (simp add: query_def list_of_pyset_def set_fold_query_step)

lemma pyset_add_absorb: "x \<in> set s \<Longrightarrow> pyset_add x s = s"
  by (simp add: pyset_add_def)

lemma pyset_update_absorb: "set xs \<subseteq> set s \<Longrightarrow> pyset_update s xs = s"
  unfolding pyset_update_def
  by (induction xs arbitrary: s) (simp_all add: pyset_add_absorb)

lemma query_step_absorb: "postings idx w \<subseteq> set result \<Longrightarrow> query_step idx w result = result"
  by (simp add: query_step_conv postings_def pyset_update_absorb split: option.splits)

lemma query_step_skip:
  "map_of idx w = None \<or> map_of idx w = Some [] \<Longrightarrow> query_step idx w result = result"
  by (auto simp: query_step_def)


lemma in_postings_iff:
  "d \<in> postings idx t \<longleftrightarrow> (\<exists>ids. map_of idx t = Some ids \<and> d \<in> set ids)"
  by (simp add: postings_def split: option.splits)



section \<open>Claims about the builder\<close>







text \<open>
  C8, as the code has it. Every item of an index produced by
  \<^verbatim>\<open>build_inverted_index\<close> has at least one document id. (An index produced by
  \<^verbatim>\<open>load\<close> is whatever the file holds; see \<open>load\<close> below.)
\<close>

theorem build_entries_nonempty:
  "(t, ids) \<in> set (inverted_index (build_inverted_index D S)) \<Longrightarrow> ids \<noteq> []"
proof -
  have "nonempty_entries (fold (index_document S) D [])"
    by (rule nonempty_fold_documents) (simp add: nonempty_entries_def)
  then have "[] \<notin> snd ` set (inverted_index (build_inverted_index D S))"
    by (simp add: inverted_index_build nonempty_entries_def)
  moreover assume "(t, ids) \<in> set (inverted_index (build_inverted_index D S))"
  then have "ids \<in> snd ` set (inverted_index (build_inverted_index D S))"
    by (metis image_eqI snd_conv)
  ultimately show ?thesis by metis
qed

theorem build_entries_nonempty_witness:
  "(''cat'', [0]) \<in> set (inverted_index (build_inverted_index [(0, ''the cat'')] {''the''})) \<and>
   [0::int] \<noteq> []"
proof -
  have t: "re_split_W ''the cat'' = [''the'', ''cat'']" by code_simp
  have m: "(''cat'', [0]) \<in> set (inverted_index (build_inverted_index [(0, ''the cat'')] {''the''}))"
    by (simp add: t build_inverted_index_def index_document_def add_posting_def
        pyset_add_def list_of_pyset_def)
  from m build_entries_nonempty[OF m] show ?thesis by simp
qed

section \<open>Claims about query\<close>

lemma query_Nil: "query self [] = []"
  by (simp add: query_def list_of_pyset_def)

lemma distinct_query: "distinct (query self ws)"
  by (simp add: query_def list_of_pyset_def distinct_fold_query_step)

lemma postings_keys:
  "(\<Union>w\<in>set ws. postings idx w) = \<Union> {set ids | w ids. w \<in> set ws \<and> map_of idx w = Some ids}"
  by (rule set_eqI) (auto simp: in_postings_iff)

text \<open>
  C4. For every index and every list of query terms, \<^verbatim>\<open>query\<close> returns a duplicate-free
  list whose elements are exactly the ids in the collections of those terms that are
  keys of the index. A term that is not a key adds nothing and raises nothing: the
  result is the same as without it. With no terms the result is empty.
\<close>

theorem query_union:
  "distinct (query self ws) \<and>
   set (query self ws) =
     \<Union> {set ids | w ids. w \<in> set ws \<and> map_of (inverted_index self) w = Some ids} \<and>
   (map_of (inverted_index self) t = None \<longrightarrow>
      query self [t] = [] \<and> query self (xs @ t # ys) = query self (xs @ ys)) \<and>
   query self [] = []"
proof -
  have 1: "distinct (query self ws)" by (rule distinct_query)
  have 2: "set (query self ws) =
     \<Union> {set ids | w ids. w \<in> set ws \<and> map_of (inverted_index self) w = Some ids}"
    by (simp only: set_query postings_keys)
  have 3: "query self [t] = [] \<and> query self (xs @ t # ys) = query self (xs @ ys)"
    if "map_of (inverted_index self) t = None"
  proof -
    have "query_step (inverted_index self) t = id"
      using that by (intro ext) (simp add: query_step_skip)
    then show ?thesis by (simp add: query_def list_of_pyset_def)
  qed
  from 1 2 3 query_Nil[of self] show ?thesis by blast
qed

theorem query_union_witness:
  "map_of (inverted_index (InvertedIndex [(''cat'', [0]), (''dog'', [1, 0])])) ''zzz'' = None \<and>
   query (InvertedIndex [(''cat'', [0]), (''dog'', [1, 0])]) [''zzz''] = [] \<and>
   query (InvertedIndex [(''cat'', [0]), (''dog'', [1, 0])]) ([''cat''] @ ''zzz'' # [''dog''])
     = query (InvertedIndex [(''cat'', [0]), (''dog'', [1, 0])]) ([''cat''] @ [''dog'']) \<and>
   query (InvertedIndex [(''cat'', [0]), (''dog'', [1, 0])]) [''cat'', ''dog''] = [0, 1]"
proof -
  have n: "map_of (inverted_index (InvertedIndex [(''cat'', [0::int]), (''dog'', [1, 0])])) ''zzz'' = None"
    by simp
  have q: "query (InvertedIndex [(''cat'', [0]), (''dog'', [1, 0])]) [''cat'', ''dog''] = [0, 1]"
    by (simp add: query_def query_step_def pyset_update_def pyset_add_def list_of_pyset_def)
  show ?thesis
    using n q query_union[of "InvertedIndex [(''cat'', [0]), (''dog'', [1, 0])]" "[]"
        "''zzz''" "[''cat'']" "[''dog'']"]
    by simp
qed

text \<open>
  C7. \<^verbatim>\<open>query([])\<close> is empty; the set returned for \<open>A @ B\<close> is the union of the sets
  returned for \<open>A\<close> and for \<open>B\<close>; and \<^verbatim>\<open>query([t, t])\<close> returns what \<^verbatim>\<open>query([t])\<close>
  returns.
\<close>

theorem query_laws:
  "query self [] = [] \<and>
   set (query self (A @ B)) = set (query self A) \<union> set (query self B) \<and>
   query self [t, t] = query self [t]"
proof -
  have "query_step (inverted_index self) t (query_step (inverted_index self) t [])
        = query_step (inverted_index self) t []"
    by (rule query_step_absorb) (simp add: set_query_step)
  then have "query self [t, t] = query self [t]" by (simp add: query_def)
  moreover have "set (query self (A @ B)) = set (query self A) \<union> set (query self B)"
    by (simp add: set_query)
  ultimately show ?thesis using query_Nil[of self] by blast
qed

theorem query_laws_witness:
  "query (InvertedIndex [(''cat'', [0]), (''dog'', [1, 0])]) [''dog'', ''dog''] = [1, 0] \<and>
   set (query (InvertedIndex [(''cat'', [0]), (''dog'', [1, 0])]) ([''zzz''] @ [''cat''])) = {0}"
proof -
  have q: "query (InvertedIndex [(''cat'', [0]), (''dog'', [1, 0])]) [''dog''] = [1, 0]"
    by (simp add: query_def query_step_def pyset_update_def pyset_add_def list_of_pyset_def)
  have c: "query (InvertedIndex [(''cat'', [0]), (''dog'', [1, 0])]) [''cat''] = [0]"
    by (simp add: query_def query_step_def pyset_update_def pyset_add_def list_of_pyset_def)
  have z: "query (InvertedIndex [(''cat'', [0]), (''dog'', [1, 0])]) [''zzz''] = []"
    by (simp add: query_def query_step_def pyset_update_def pyset_add_def list_of_pyset_def)
  show ?thesis
    using query_laws[of "InvertedIndex [(''cat'', [0]), (''dog'', [1, 0])]" "[''zzz'']" "[''cat'']" "''dog''"]
    by (simp add: q c z)
qed

text \<open>
  C10. When the index binds a term to the empty list, \<^verbatim>\<open>query\<close> treats the term like a
  missing one: alone it gives the empty result, inside a longer query it can be left
  out, and every query gives the same result as on the index without that key.
\<close>

theorem query_empty_entry:
  assumes "map_of (inverted_index self) t = Some []"
  shows "query self [t] = [] \<and>
         query self (xs @ t # ys) = query self (xs @ ys) \<and>
         query self ws = query (InvertedIndex (AList.delete t (inverted_index self))) ws"
proof -
  let ?idx = "inverted_index self"
  have skip: "query_step ?idx t = id"
    using assms by (intro ext) (simp add: query_step_skip)
  have "query_step (AList.delete t ?idx) w = query_step ?idx w" for w
  proof (cases "w = t")
    case True
    have "map_of (AList.delete t ?idx) t = None" by (simp add: delete_conv')
    then have "query_step (AList.delete t ?idx) t = id"
      by (intro ext) (simp add: query_step_skip)
    with skip True show ?thesis by simp
  next
    case False
    then have "map_of (AList.delete t ?idx) w = map_of ?idx w" by (simp add: delete_conv')
    then show ?thesis by (intro ext) (simp add: query_step_def)
  qed
  then have "query_step (AList.delete t ?idx) = query_step ?idx" by (rule ext)
  with skip show ?thesis by (simp add: query_def list_of_pyset_def)
qed

theorem query_empty_entry_witness:
  "map_of (inverted_index (InvertedIndex [(''cat'', [0]), (''a'', [])])) ''a'' = Some [] \<and>
   query (InvertedIndex [(''cat'', [0]), (''a'', [])]) [''a''] = [] \<and>
   query (InvertedIndex [(''cat'', [0]), (''a'', [])]) ([''cat''] @ ''a'' # [])
     = query (InvertedIndex [(''cat'', [0]), (''a'', [])]) ([''cat''] @ [])"
proof -
  have h: "map_of (inverted_index (InvertedIndex [(''cat'', [0::int]), (''a'', [])])) ''a'' = Some []"
    by simp
  show ?thesis
    using h query_empty_entry[OF h, of "[''cat'']" "[]" "[]"] by simp
qed

section \<open>Claims about the corpus loader\<close>















section \<open>Claims about load\<close>

text \<open>
  \<^verbatim>\<open>load\<close> accepts a file whose top level is a list, and one whose ids are strings:
  neither value has the type \<^verbatim>\<open>Dict[str, List[int]]\<close>.
\<close>

theorem load_ill_shaped:
  \<open>load ''[1]'' = Inr (InvertedIndex (JArr [JInt 1])) \<and>
   words_ids_of_json (JArr [JInt 1]) = None \<and>
   load ''{"cat": ["x"]}'' =
     Inr (InvertedIndex (JObj [(map of_char ''cat'', JArr [JStr (map of_char ''x'')])])) \<and>
   words_ids_of_json (JObj [(map of_char ''cat'', JArr [JStr (map of_char ''x'')])]) = None\<close>
  by code_simp

text \<open>
  \<^verbatim>\<open>load\<close> accepts a file in which a key has no ids; the index it returns binds the
  key to the empty list.
\<close>

theorem load_empty_entry:
  \<open>load ''{"a": []}'' = Inr (InvertedIndex (JObj [(map of_char ''a'', JArr [])])) \<and>
   words_ids_of_json (JObj [(map of_char ''a'', JArr [])]) = Some [(''a'', [])]\<close>
  by code_simp


text \<open>
  C3, as the code has it. \<^verbatim>\<open>load\<close> fails exactly when the text is not a JSON document,
  and then with the \<^verbatim>\<open>JSONDecodeError\<close> of the decoder: nothing of a text that is
  broken somewhere is recovered. A text that is a JSON document is not validated:
  \<^verbatim>\<open>load\<close> returns the index that holds the decoded value, whatever its shape.
\<close>

theorem load_no_validation:
  "(\<exists>obj. json_loads f = Inr obj \<and> load f = Inr (InvertedIndex obj)) \<or>
   (json_loads f = Inl JSONDecodeError \<and> load f = Inl JSONDecodeError)"
proof (cases "scan_once (2 * length f + 2) (skip_ws f)")
  case None
  then have "json_loads f = Inl JSONDecodeError" by (simp add: json_loads_def)
  then show ?thesis by (simp add: load_def)
next
  case (Some a)
  obtain obj r where a: "a = (obj, r)" by (cases a)
  show ?thesis
  proof (cases "skip_ws r = []")
    case True
    with Some a have "json_loads f = Inr obj" by (simp add: json_loads_def)
    then show ?thesis by (simp add: load_def)
  next
    case False
    with Some a have "json_loads f = Inl JSONDecodeError" by (simp add: json_loads_def)
    then show ?thesis by (simp add: load_def)
  qed
qed

theorem load_no_validation_witness:
  \<open>load ''{"a": [1, 2],}'' = Inl JSONDecodeError \<and>
   load ''{"a": [1, 2]} x'' = Inl JSONDecodeError \<and>
   load ''"cat"'' = Inr (InvertedIndex (JStr (map of_char ''cat'')))\<close>
proof -
  have 1: \<open>json_loads ''{"a": [1, 2],}'' = Inl JSONDecodeError\<close> by code_simp
  have 2: \<open>json_loads ''{"a": [1, 2]} x'' = Inl JSONDecodeError\<close> by code_simp
  have 3: \<open>json_loads ''"cat"'' = Inr (JStr (map of_char ''cat''))\<close> by code_simp
  show ?thesis
    using load_no_validation[of \<open>''{"a": [1, 2],}''\<close>]
      load_no_validation[of \<open>''{"a": [1, 2]} x''\<close>]
      load_no_validation[of \<open>''"cat"''\<close>]
    unfolding 1 2 3 by simp
qed

end
